theory Spec2Isabelle
  imports Main
begin

section \<open>The module state of server.js\<close>

text \<open>
  The server keeps three module-level variables (\<open>pool\<close>, \<open>isConnected\<close>,
  \<open>connectionRetries\<close>, lines 34-36) and one constant computed at load time
  (\<open>missingEnvVars\<close>, line 26). A pool object is identified by a handle: the number of
  \<open>new Pool(...)\<close> calls made before it. Every call that leaves the process (to the
  driver or to a timer) is recorded, in order, in \<open>trace\<close>. Console output is not
  recorded.
\<close>

datatype event =
    PoolCreated nat
  | PoolEnd nat
  | PoolConnect nat
  | ClientQuery nat
  | ClientRelease nat
  | Sleep nat
  | SetInterval nat

record state =
  pool :: "nat option"
  isConnected :: bool
  connectionRetries :: nat
  missingEnvVars :: "string list"
  trace :: "event list"

definition MAX_RETRIES :: nat where
  "MAX_RETRIES = 5"

definition RETRY_DELAY :: nat where
  "RETRY_DELAY = 5000"

definition KEEPALIVE_INTERVAL :: nat where
  "KEEPALIVE_INTERVAL = 30000"

definition emit :: "event \<Rightarrow> state \<Rightarrow> state" where
  "emit e s = s\<lparr>trace := trace s @ [e]\<rparr>"

fun isPoolCreated :: "event \<Rightarrow> bool" where
  "isPoolCreated (PoolCreated h) = True"
| "isPoolCreated e = False"

fun isSleep :: "event \<Rightarrow> bool" where
  "isSleep (Sleep d) = True"
| "isSleep e = False"

fun isPoolConnect :: "event \<Rightarrow> bool" where
  "isPoolConnect (PoolConnect h) = True"
| "isPoolConnect e = False"

fun isClientRelease :: "event \<Rightarrow> bool" where
  "isClientRelease (ClientRelease h) = True"
| "isClientRelease e = False"

text \<open>The number of pool objects constructed so far: one per connect attempt.\<close>

definition attempts :: "state \<Rightarrow> nat" where
  "attempts s = length (filter isPoolCreated (trace s))"

definition sleeps :: "state \<Rightarrow> nat" where
  "sleeps s = length (filter isSleep (trace s))"

text \<open>The events a run added to the trace of the state it started from.\<close>

definition added :: "state \<Rightarrow> state \<Rightarrow> event list" where
  "added s s' = drop (length (trace s)) (trace s')"

section \<open>connectDB\<close>

text \<open>\<open>createPool\<close>, lines 41-61: \<open>null\<close> without configuration, a new pool otherwise.\<close>

definition createPool :: "state \<Rightarrow> nat option \<times> state" where
  "createPool s =
     (if length (missingEnvVars s) > 0 then (None, s)
      else (Some (attempts s), emit (PoolCreated (attempts s)) s))"

text \<open>
  \<open>connectDB\<close> is an async function: it runs without interruption from one
  \<open>await\<close> to the next, and other callbacks of the process may run while it is
  suspended. The places where it is suspended, or has returned:
\<close>

datatype pc =
    AwaitPoolEnd
  | AwaitConnect nat
  | AwaitQuery nat
  | AwaitDelay
  | Returned bool

text \<open>Lines 78-98: the probe answered; the flag is set and the keepalive timer started.\<close>

definition connect_success :: "nat \<Rightarrow> state \<Rightarrow> pc \<times> state" where
  "connect_success h s =
     (Returned True,
      emit (SetInterval KEEPALIVE_INTERVAL)
        ((emit (ClientRelease h) s)\<lparr>isConnected := True, connectionRetries := 0\<rparr>))"

text \<open>Lines 99-113: the catch block.\<close>

definition connect_catch :: "state \<Rightarrow> pc \<times> state" where
  "connect_catch s =
     (let s1 = s\<lparr>isConnected := False, pool := None\<rparr>
      in if connectionRetries s1 < MAX_RETRIES
         then (AwaitDelay,
               emit (Sleep RETRY_DELAY) (s1\<lparr>connectionRetries := connectionRetries s1 + 1\<rparr>))
         else (Returned False, s1))"

text \<open>Lines 72-76: the pool is replaced and the probe's \<open>pool.connect()\<close> is issued.\<close>

definition connect_create :: "state \<Rightarrow> pc \<times> state" where
  "connect_create s =
     (case createPool s of
        (p, s1) \<Rightarrow>
          (case p of
             None \<Rightarrow> (Returned False, s1\<lparr>pool := None\<rparr>)
           | Some h \<Rightarrow> (AwaitConnect h, emit (PoolConnect h) (s1\<lparr>pool := Some h\<rparr>))))"

text \<open>Lines 64-70: the call itself, up to its first \<open>await\<close>.\<close>

definition connectDB_call :: "state \<Rightarrow> pc \<times> state" where
  "connectDB_call s =
     (if isConnected s then (Returned True, s)
      else if length (missingEnvVars s) > 0 then (Returned False, s)
      else (case pool s of
              Some p \<Rightarrow> (AwaitPoolEnd, emit (PoolEnd p) s)
            | None \<Rightarrow> connect_create s))"

text \<open>
  Resuming a suspended call: \<open>ok\<close> says whether the awaited promise was fulfilled.
  The promise of \<open>pool.end().catch(() => {})\<close> and the retry delay are always
  fulfilled; after the delay the function calls itself (line 108).
\<close>

fun resume :: "bool \<Rightarrow> pc \<Rightarrow> state \<Rightarrow> pc \<times> state" where
  "resume ok AwaitPoolEnd s = connect_create s"
| "resume ok (AwaitConnect h) s =
     (if ok then (AwaitQuery h, emit (ClientQuery h) s) else connect_catch s)"
| "resume ok (AwaitQuery h) s =
     (if ok then connect_success h s else connect_catch s)"
| "resume ok AwaitDelay s = connectDB_call s"
| "resume ok (Returned b) s = (Returned b, s)"

subsection \<open>One call run to its end\<close>

text \<open>
  What the database answers to the probe of each pool (lines 76-77): the connection is
  refused, the connection is made and \<open>SELECT 1\<close> fails, or both succeed.
\<close>

record js_error =
  err_code :: "string option"
  err_message :: string

datatype probe = ProbeOk | AcquireRejected js_error | QueryRejected js_error

type_synonym world = "nat \<Rightarrow> probe"

fun acquired :: "probe \<Rightarrow> bool" where
  "acquired (AcquireRejected e) = False"
| "acquired p = True"

fun answered :: "probe \<Rightarrow> bool" where
  "answered ProbeOk = True"
| "answered p = False"

fun rank :: "pc \<Rightarrow> nat" where
  "rank (Returned b) = 0"
| "rank (AwaitQuery h) = 1"
| "rank (AwaitConnect h) = 2"
| "rank AwaitPoolEnd = 3"
| "rank AwaitDelay = 4"

text \<open>
  A bound on the resumptions still to come: none once the call has returned, otherwise
  five for each retry the counter still allows, and the rank of the place.
\<close>

fun budget :: "pc \<times> state \<Rightarrow> nat" where
  "budget (Returned b, s) = 0"
| "budget (p, s) = 5 * (MAX_RETRIES - connectionRetries s) + rank p"

function run_task :: "world \<Rightarrow> pc \<times> state \<Rightarrow> bool \<times> state" where
  "run_task w (Returned b, s) = (b, s)"
| "run_task w (AwaitPoolEnd, s) = run_task w (resume True AwaitPoolEnd s)"
| "run_task w (AwaitConnect h, s) = run_task w (resume (acquired (w h)) (AwaitConnect h) s)"
| "run_task w (AwaitQuery h, s) = run_task w (resume (answered (w h)) (AwaitQuery h) s)"
| "run_task w (AwaitDelay, s) = run_task w (resume True AwaitDelay s)"
  by pat_completeness auto
termination
  by (relation "measure (\<lambda>(w, t). budget t)")
     (auto simp: connect_create_def createPool_def connectDB_call_def connect_catch_def
        connect_success_def emit_def MAX_RETRIES_def Let_def split: option.splits)

definition connectDB :: "world \<Rightarrow> state \<Rightarrow> bool \<times> state" where
  "connectDB w s = run_task w (connectDB_call s)"

text \<open>
  The same run with a bound on the number of resumptions: \<open>None\<close> when the call has
  not returned within the bound.
\<close>

fun run_fuel :: "nat \<Rightarrow> world \<Rightarrow> pc \<times> state \<Rightarrow> (bool \<times> state) option" where
  "run_fuel n w (Returned b, s) = Some (b, s)"
| "run_fuel 0 w (p, s) = None"
| "run_fuel (Suc n) w (AwaitPoolEnd, s) = run_fuel n w (resume True AwaitPoolEnd s)"
| "run_fuel (Suc n) w (AwaitConnect h, s) =
     run_fuel n w (resume (acquired (w h)) (AwaitConnect h) s)"
| "run_fuel (Suc n) w (AwaitQuery h, s) =
     run_fuel n w (resume (answered (w h)) (AwaitQuery h) s)"
| "run_fuel (Suc n) w (AwaitDelay, s) = run_fuel n w (resume True AwaitDelay s)"

subsection \<open>Several calls in flight\<close>

text \<open>
  Node runs one callback at a time, so calls of \<open>connectDB\<close> that are in flight together
  interleave at their \<open>await\<close>s only. A schedule names, step by step, the call that is
  resumed and whether its promise was fulfilled.
\<close>

fun step_task :: "nat \<times> bool \<Rightarrow> pc list \<times> state \<Rightarrow> pc list \<times> state" where
  "step_task (i, ok) (ts, s) =
     (if i < length ts
      then (case resume ok (ts ! i) s of (t, s') \<Rightarrow> (ts[i := t], s'))
      else (ts, s))"

fun interleave :: "(nat \<times> bool) list \<Rightarrow> pc list \<times> state \<Rightarrow> pc list \<times> state" where
  "interleave [] c = c"
| "interleave (x # xs) c = interleave xs (step_task x c)"

text \<open>The pools created by the steps of call \<open>i\<close> in a schedule.\<close>

fun attempts_by :: "nat \<Rightarrow> (nat \<times> bool) list \<Rightarrow> pc list \<times> state \<Rightarrow> nat" where
  "attempts_by i [] c = 0"
| "attempts_by i (x # xs) c =
     (if fst x = i then attempts (snd (step_task x c)) - attempts (snd c) else 0)
       + attempts_by i xs (step_task x c)"

section \<open>The keepalive timer\<close>

text \<open>
  Lines 85-96, one tick of the timer. The tick looks at \<open>pool\<close> only, not at the flag.
  On a failed probe it clears the flag and calls \<open>connectDB\<close> without awaiting it: the
  call runs to its first \<open>await\<close> and is left in flight (the second component). When
  \<open>SELECT 1\<close> is what fails, the client is not released.
\<close>

definition keepalive_catch :: "state \<Rightarrow> pc option \<times> state" where
  "keepalive_catch s =
     (case connectDB_call (s\<lparr>isConnected := False\<rparr>) of (t, s') \<Rightarrow> (Some t, s'))"

definition keepalive_tick :: "probe \<Rightarrow> state \<Rightarrow> pc option \<times> state" where
  "keepalive_tick pr s =
     (case pool s of
        None \<Rightarrow> (None, s)
      | Some h \<Rightarrow>
          (case pr of
             ProbeOk \<Rightarrow>
               (None, emit (ClientRelease h) (emit (ClientQuery h) (emit (PoolConnect h) s)))
           | AcquireRejected e \<Rightarrow> keepalive_catch (emit (PoolConnect h) s)
           | QueryRejected e \<Rightarrow>
               keepalive_catch (emit (ClientQuery h) (emit (PoolConnect h) s))))"

section \<open>The HTTP handlers\<close>

text \<open>
  A handler, like a tick of the timer, is taken from its start to its response in one
  piece: what the driver answers to it is an argument, and nothing else runs between its
  own \<open>await\<close>s. The calls of \<open>connectDB\<close> it leaves in flight are resumed later,
  by \<open>run_task\<close> or by a schedule.
\<close>

datatype jsvalue = JUndefined | JNull | JBool bool | JNumber int | JString string | JObject

text \<open>JavaScript's \<open>!v\<close>. Numbers of a JSON body are kept as integers here.\<close>

fun falsy :: "jsvalue \<Rightarrow> bool" where
  "falsy JUndefined = True"
| "falsy JNull = True"
| "falsy (JBool b) = (\<not> b)"
| "falsy (JNumber n) = (n = 0)"
| "falsy (JString t) = (t = [])"
| "falsy JObject = False"

record request =
  req_text :: jsvalue
  req_params :: jsvalue

record query_result =
  res_rows :: "string list list"
  res_rowCount :: nat
  res_fields :: "string list"

text \<open>
  The health payload of lines 119-129, without the values read from the clock and the
  process environment (\<open>uptime\<close>, \<open>timestamp\<close>, \<open>nodeEnv\<close>, \<open>port\<close>).
\<close>

record health =
  health_status :: string
  database :: string
  databaseError :: "string option"
  hasDbConfig :: bool

datatype body =
    ErrorBody string
  | RowsBody query_result
  | HealthBody health
  | DegradedBody string

record response =
  status :: nat
  body :: body

datatype 'a awaited = Fulfilled 'a | Rejected js_error

subsection \<open>POST /api/query\<close>

text \<open>
  Lines 183-194, the catch block: a reset of the connection clears the flag and calls
  \<open>connectDB\<close> without awaiting it; every error is answered with 500 and its message.
\<close>

definition query_catch :: "js_error \<Rightarrow> state \<Rightarrow> response \<times> pc option \<times> state" where
  "query_catch e s =
     (if err_code e = Some ''ECONNRESET'' \<or> err_code e = Some ''57P01''
      then (case connectDB_call (s\<lparr>isConnected := False\<rparr>) of
              (t, s') \<Rightarrow> (\<lparr>status = 500, body = ErrorBody (err_message e)\<rparr>, Some t, s'))
      else (\<lparr>status = 500, body = ErrorBody (err_message e)\<rparr>, None, s))"

text \<open>
  Lines 157-200. \<open>acq\<close> is what \<open>pool.connect()\<close> answers, \<open>qr\<close> what
  \<open>client.query(text, params)\<close> answers, and \<open>send\<close> the exception, if any, that
  \<open>res.json\<close> throws on the rows (it is inside the \<open>try\<close>). The result is the
  response, the \<open>connectDB\<close> call left in flight if one was made, and the new state.
  The \<open>finally\<close> block releases the client when one was acquired.
\<close>

definition query_handler ::
  "request \<Rightarrow> unit awaited \<Rightarrow> query_result awaited \<Rightarrow> js_error option \<Rightarrow> state
     \<Rightarrow> response \<times> pc option \<times> state"
where
  "query_handler req acq qr send s =
     (if \<not> isConnected s
      then (\<lparr>status = 503, body = ErrorBody ''Database not connected''\<rparr>, None, s)
      else (case pool s of
        None \<Rightarrow> (\<lparr>status = 503, body = ErrorBody ''Database not connected''\<rparr>, None, s)
      | Some h \<Rightarrow>
          if falsy (req_text req)
          then (\<lparr>status = 400, body = ErrorBody ''Query text is required''\<rparr>, None, s)
          else (case acq of
            Rejected e \<Rightarrow> query_catch e (emit (PoolConnect h) s)
          | Fulfilled u \<Rightarrow>
              (case qr of
                 Fulfilled r \<Rightarrow>
                   (case send of
                      None \<Rightarrow>
                        (\<lparr>status = 200, body = RowsBody r\<rparr>, None,
                         emit (ClientRelease h) (emit (ClientQuery h) (emit (PoolConnect h) s)))
                    | Some e \<Rightarrow>
                        (case query_catch e (emit (ClientQuery h) (emit (PoolConnect h) s)) of
                           (rsp, t, s') \<Rightarrow> (rsp, t, emit (ClientRelease h) s')))
               | Rejected e \<Rightarrow>
                   (case query_catch e (emit (ClientQuery h) (emit (PoolConnect h) s)) of
                      (rsp, t, s') \<Rightarrow> (rsp, t, emit (ClientRelease h) s'))))))"

subsection \<open>GET /api/health\<close>

text \<open>Lines 137-143: the probe of the health check failed.\<close>

definition health_probe_failed ::
  "js_error \<Rightarrow> health \<Rightarrow> state \<Rightarrow> response \<times> pc option \<times> state"
where
  "health_probe_failed e h s =
     (case connectDB_call (s\<lparr>isConnected := False\<rparr>) of
        (t, s') \<Rightarrow>
          (\<lparr>status = 200,
            body = HealthBody (h\<lparr>database := ''error'', databaseError := Some (err_message e)\<rparr>)\<rparr>,
           Some t, s'))"

text \<open>
  Lines 117-154. \<open>fault\<close> is an exception thrown while the payload is built (lines
  119-129) and \<open>send\<close> one thrown by \<open>res.status(200).json(health)\<close> (line 146);
  the outer catch answers both. \<open>pr\<close> is what the database answers to the probe of
  lines 133-134.
\<close>

definition health_probe ::
  "probe \<Rightarrow> state \<Rightarrow> response \<times> pc option \<times> state"
where
  "health_probe pr s =
     (let h0 = \<lparr>health_status = ''healthy'',
                database = (if isConnected s then ''connected'' else ''disconnected''),
                databaseError = None,
                hasDbConfig = (length (missingEnvVars s) = 0)\<rparr>
      in if isConnected s
         then (case pool s of
           None \<Rightarrow> (\<lparr>status = 200, body = HealthBody h0\<rparr>, None, s)
         | Some h \<Rightarrow>
             (case pr of
                ProbeOk \<Rightarrow>
                  (\<lparr>status = 200, body = HealthBody (h0\<lparr>database := ''connected''\<rparr>)\<rparr>,
                   None,
                   emit (ClientRelease h) (emit (ClientQuery h) (emit (PoolConnect h) s)))
              | AcquireRejected e \<Rightarrow> health_probe_failed e h0 (emit (PoolConnect h) s)
              | QueryRejected e \<Rightarrow>
                  health_probe_failed e h0
                    (emit (ClientQuery h) (emit (PoolConnect h) s))))
         else (\<lparr>status = 200, body = HealthBody h0\<rparr>, None, s))"

definition health_handler ::
  "js_error option \<Rightarrow> probe \<Rightarrow> js_error option \<Rightarrow> state \<Rightarrow> response \<times> pc option \<times> state"
where
  "health_handler fault pr send s =
     (case fault of
        Some e \<Rightarrow> (\<lparr>status = 200, body = DegradedBody (err_message e)\<rparr>, None, s)
      | None \<Rightarrow>
          (case health_probe pr s of
             (rsp, t, s') \<Rightarrow>
               (case send of
                  None \<Rightarrow> (rsp, t, s')
                | Some e \<Rightarrow> (\<lparr>status = 200, body = DegradedBody (err_message e)\<rparr>, t, s'))))"

text \<open>The bodies a health request is answered with.\<close>

fun isStatusPayload :: "body \<Rightarrow> bool" where
  "isStatusPayload (HealthBody h) = True"
| "isStatusPayload (DegradedBody m) = True"
| "isStatusPayload b = False"

section \<open>The flag and the pool\<close>

text \<open>
  The flag is meant to be set only while there is a pool. For a call of \<open>connectDB\<close>
  that is suspended, \<open>task_ok\<close> says what the call relies on at that place: while it
  awaits its probe, that \<open>pool\<close> still holds a pool. \<open>settle\<close> runs the call a handler
  left in flight, alone, to its end.
\<close>

definition flag_has_pool :: "state \<Rightarrow> bool" where
  "flag_has_pool s = (if isConnected s then pool s \<noteq> None else True)"

fun task_ok :: "pc \<times> state \<Rightarrow> bool" where
  "task_ok (AwaitPoolEnd, s) = (\<not> isConnected s)"
| "task_ok (AwaitConnect h, s) = (pool s \<noteq> None)"
| "task_ok (AwaitQuery h, s) = (pool s \<noteq> None)"
| "task_ok (AwaitDelay, s) = flag_has_pool s"
| "task_ok (Returned b, s) = flag_has_pool s"

fun spawn_ok :: "pc option \<times> state \<Rightarrow> bool" where
  "spawn_ok (None, s) = flag_has_pool s"
| "spawn_ok (Some t, s) = task_ok (t, s)"

fun settle :: "world \<Rightarrow> pc option \<times> state \<Rightarrow> state" where
  "settle w (None, s) = s"
| "settle w (Some t, s) = snd (run_task w (t, s))"

section \<open>The shape of a retry sequence\<close>

text \<open>
  The attempts and delays of a trace, and what a sequence of \<open>n\<close> attempts should
  leave there: the pool of each attempt, with one delay of \<open>RETRY_DELAY\<close> between an
  attempt and the next and none after the last.
\<close>

fun isAttemptOrDelay :: "event \<Rightarrow> bool" where
  "isAttemptOrDelay (PoolCreated h) = True"
| "isAttemptOrDelay (Sleep d) = True"
| "isAttemptOrDelay e = False"

fun retries_from :: "nat \<Rightarrow> nat \<Rightarrow> event list" where
  "retries_from h 0 = []"
| "retries_from h (Suc n) = Sleep RETRY_DELAY # PoolCreated h # retries_from (Suc h) n"

fun attempts_from :: "nat \<Rightarrow> nat \<Rightarrow> event list" where
  "attempts_from h 0 = []"
| "attempts_from h (Suc n) = PoolCreated h # retries_from (Suc h) n"

section \<open>Concrete states and answers\<close>

text \<open>The process right after start, with the configuration present.\<close>

definition fresh :: state where
  "fresh =
     \<lparr>pool = None, isConnected = False, connectionRetries = 0, missingEnvVars = [],
      trace = []\<rparr>"

text \<open>The process after a first successful \<open>connectDB\<close> from \<open>fresh\<close>.\<close>

definition connected :: state where
  "connected =
     \<lparr>pool = Some 0, isConnected = True, connectionRetries = 0, missingEnvVars = [],
      trace = [PoolCreated 0, PoolConnect 0, ClientQuery 0, ClientRelease 0,
               SetInterval 30000]\<rparr>"

definition refused :: js_error where
  "refused = \<lparr>err_code = Some ''ECONNREFUSED'', err_message = ''connection refused''\<rparr>"

definition reset :: js_error where
  "reset = \<lparr>err_code = Some ''ECONNRESET'', err_message = ''read ECONNRESET''\<rparr>"

definition syntax_error :: js_error where
  "syntax_error = \<lparr>err_code = Some ''42601'', err_message = ''syntax error''\<rparr>"

text \<open>A database that refuses every connection.\<close>

definition always_refused :: world where
  "always_refused h = AcquireRejected refused"

text \<open>A database that answers every probe.\<close>

definition always_ok :: world where
  "always_ok h = ProbeOk"

definition select_two :: request where
  "select_two = \<lparr>req_text = JString ''SELECT 2'', req_params = JUndefined\<rparr>"

definition no_rows :: query_result where
  "no_rows = \<lparr>res_rows = [], res_rowCount = 0, res_fields = []\<rparr>"

definition no_text :: request where
  "no_text = \<lparr>req_text = JUndefined, req_params = JUndefined\<rparr>"

text \<open>
  Two triggers on the connected process. A query is answered by a reset of the
  connection: its handler clears the flag and calls \<open>connectDB\<close>, which waits for the
  old pool to end. Then a tick of the keepalive timer finds its probe refused, clears the
  flag and calls \<open>connectDB\<close> as well. Both calls have seen the flag clear; both are in
  flight.
\<close>

fun in_flight :: "pc option \<Rightarrow> pc list" where
  "in_flight None = []"
| "in_flight (Some t) = [t]"

definition two_triggers :: "pc list \<times> state" where
  "two_triggers =
     (case query_handler select_two (Fulfilled ()) (Rejected reset) None connected of
        (r, t1, s1) \<Rightarrow>
          (case keepalive_tick (AcquireRejected refused) s1 of
             (t2, s2) \<Rightarrow> (in_flight t1 @ in_flight t2, s2)))"

text \<open>
  Two schedules for the two calls. In the first every promise is fulfilled. In the second
  the connection of the second call's pool is refused, and the first call's probe
  succeeds afterwards; the second call then wakes from its delay.
\<close>

definition both_succeed :: "(nat \<times> bool) list" where
  "both_succeed = [(0, True), (1, True), (0, True), (1, True), (0, True), (1, True)]"

definition second_fails :: "(nat \<times> bool) list" where
  "second_fails = [(0, True), (1, True), (1, False), (0, True), (0, True), (1, True)]"

text \<open>
  Three pieces of a longer schedule. The second call uses up its retries while every
  connection is refused; the first call then connects; the second call, whose last
  connection is refused in turn, goes on. In \<open>refused_in_turn\<close> every connection of both
  calls is refused, each call resumed twice in turn.
\<close>

definition first_burst :: "(nat \<times> bool) list" where
  "first_burst =
     [(1, True), (1, False), (1, True), (1, False), (1, True), (1, False), (1, True),
      (1, False), (1, True), (1, False), (1, True)]"

definition other_succeeds :: "(nat \<times> bool) list" where
  "other_succeeds = [(0, True), (0, True), (0, True)]"

definition second_burst :: "(nat \<times> bool) list" where
  "second_burst =
     [(1, False), (1, True), (1, False), (1, True), (1, False), (1, True), (1, False),
      (1, True), (1, False), (1, True), (1, False)]"

definition refused_in_turn :: "(nat \<times> bool) list" where
  "refused_in_turn =
     [(0, True), (0, False), (1, True), (1, False), (0, True), (0, False), (1, True),
      (1, False), (0, True), (0, False), (1, True), (1, False), (0, True), (0, False)]"

section \<open>Facts about the state\<close>

lemma emit_simps:
  "pool (emit e s) = pool s"
  "isConnected (emit e s) = isConnected s"
  "connectionRetries (emit e s) = connectionRetries s"
  "missingEnvVars (emit e s) = missingEnvVars s"
  "trace (emit e s) = trace s @ [e]"
  by (simp_all add: emit_def)

lemma attempts_emit:
  "attempts (emit e s) = (if isPoolCreated e then Suc (attempts s) else attempts s)"
  by (simp add: attempts_def emit_def)

lemma sleeps_emit:
  "sleeps (emit e s) = (if isSleep e then Suc (sleeps s) else sleeps s)"
  by (simp add: sleeps_def emit_def)

lemma attempts_update:
  "attempts (s\<lparr>pool := p\<rparr>) = attempts s"
  "attempts (s\<lparr>isConnected := b\<rparr>) = attempts s"
  "attempts (s\<lparr>connectionRetries := n\<rparr>) = attempts s"
  by (simp_all add: attempts_def)

lemma sleeps_update:
  "sleeps (s\<lparr>pool := p\<rparr>) = sleeps s"
  "sleeps (s\<lparr>isConnected := b\<rparr>) = sleeps s"
  "sleeps (s\<lparr>connectionRetries := n\<rparr>) = sleeps s"
  by (simp_all add: sleeps_def)

lemmas state_simps = emit_simps attempts_emit sleeps_emit attempts_update sleeps_update

lemma added_same: "added s s = []"
  by (simp add: added_def)

lemma answered_iff: "answered p = (p = ProbeOk)"
  by (cases p) simp_all

text \<open>The connected process is what the first connect leaves when the database answers.\<close>

lemma connected_reachable: "connectDB always_ok fresh = (True, connected)"
  by (simp add: connectDB_def connectDB_call_def connect_create_def createPool_def
      connect_success_def always_ok_def fresh_def connected_def attempts_def emit_def
      KEEPALIVE_INTERVAL_def)

section \<open>A connect sequence in which every attempt fails\<close>

text \<open>A failed probe of a new pool ends in the catch block, one attempt later.\<close>

lemma failed_attempt:
  assumes "missingEnvVars s = []" and "\<not> answered (w (attempts s))"
  shows "\<exists>s1. run_task w (connect_create s) = run_task w (connect_catch s1)
           \<and> attempts s1 = Suc (attempts s) \<and> sleeps s1 = sleeps s
           \<and> connectionRetries s1 = connectionRetries s \<and> missingEnvVars s1 = []"
proof (cases "acquired (w (attempts s))")
  case True
  with assms show ?thesis
    by (intro exI [of _ "emit (ClientQuery (attempts s))
          (emit (PoolConnect (attempts s))
             ((emit (PoolCreated (attempts s)) s)\<lparr>pool := Some (attempts s)\<rparr>))"])
       (simp add: connect_create_def createPool_def state_simps)
next
  case False
  with assms show ?thesis
    by (intro exI [of _ "emit (PoolConnect (attempts s))
          ((emit (PoolCreated (attempts s)) s)\<lparr>pool := Some (attempts s)\<rparr>)"])
       (simp add: connect_create_def createPool_def state_simps)
qed

text \<open>
  From the catch block with \<open>k\<close> retries left: \<open>k\<close> more delays and \<open>k\<close> more
  attempts, by induction on \<open>k\<close>.
\<close>

lemma catch_all_fail:
  assumes "\<forall>h. \<not> answered (w h)"
  shows "missingEnvVars s = [] \<Longrightarrow> MAX_RETRIES - connectionRetries s = k \<Longrightarrow>
         connectionRetries s \<le> MAX_RETRIES \<Longrightarrow>
         (case run_task w (connect_catch s) of
            (b, s') \<Rightarrow> \<not> b \<and> attempts s' = attempts s + k \<and> sleeps s' = sleeps s + k
              \<and> \<not> isConnected s' \<and> pool s' = None \<and> connectionRetries s' = MAX_RETRIES
              \<and> missingEnvVars s' = [])"
proof (induction k arbitrary: s)
  case 0
  then show ?case
    by (simp add: connect_catch_def state_simps)
next
  case (Suc k)
  let ?s2 = "emit (Sleep RETRY_DELAY)
     (s\<lparr>isConnected := False, pool := None, connectionRetries := connectionRetries s + 1\<rparr>)"
  from Suc.prems have lt: "connectionRetries s < MAX_RETRIES" by simp
  then have "run_task w (connect_catch s) = run_task w (connect_create ?s2)"
    using Suc.prems by (simp add: connect_catch_def connectDB_call_def state_simps)
  moreover obtain s1 where s1: "run_task w (connect_create ?s2) = run_task w (connect_catch s1)"
      "attempts s1 = Suc (attempts ?s2)" "sleeps s1 = sleeps ?s2"
      "connectionRetries s1 = connectionRetries ?s2" "missingEnvVars s1 = []"
    using failed_attempt [of ?s2 w] assms Suc.prems by (auto simp: state_simps)
  moreover have "MAX_RETRIES - connectionRetries s1 = k" "connectionRetries s1 \<le> MAX_RETRIES"
    using s1 Suc.prems lt by (simp_all add: state_simps)
  ultimately show ?case
    using Suc.IH [of s1] by (simp add: state_simps split: prod.splits)
qed

lemma create_all_fail:
  assumes "\<forall>h. \<not> answered (w h)" and "missingEnvVars s = []"
    and "connectionRetries s \<le> MAX_RETRIES"
  shows "(case run_task w (connect_create s) of
            (b, s') \<Rightarrow> \<not> b
              \<and> attempts s' = attempts s + (MAX_RETRIES + 1 - connectionRetries s)
              \<and> sleeps s' = sleeps s + (MAX_RETRIES - connectionRetries s)
              \<and> \<not> isConnected s' \<and> pool s' = None \<and> connectionRetries s' = MAX_RETRIES)"
proof -
  obtain s1 where s1: "run_task w (connect_create s) = run_task w (connect_catch s1)"
      "attempts s1 = Suc (attempts s)" "sleeps s1 = sleeps s"
      "connectionRetries s1 = connectionRetries s" "missingEnvVars s1 = []"
    using failed_attempt [of s w] assms by auto
  then show ?thesis
    using catch_all_fail [OF assms(1), of s1 "MAX_RETRIES - connectionRetries s1"] assms(3)
    by (auto split: prod.splits)
qed




section \<open>POST /api/query\<close>

text \<open>
  Claim C4. A query request that finds the flag clear or no pool is answered 503 with
  the state, and so the trace, unchanged: no \<open>pool.connect()\<close> is issued.
\<close>

theorem query_unavailable_503:
  assumes "\<not> isConnected s \<or> pool s = None"
  shows "query_handler req acq qr send s =
           (\<lparr>status = 503, body = ErrorBody ''Database not connected''\<rparr>, None, s)
    \<and> filter isPoolConnect (added s (snd (snd (query_handler req acq qr send s)))) = []"
  using assms by (auto simp: query_handler_def added_same)

theorem query_unavailable_503_witness:
  "query_handler select_two (Fulfilled ()) (Fulfilled no_rows) None fresh =
           (\<lparr>status = 503, body = ErrorBody ''Database not connected''\<rparr>, None, fresh)
    \<and> filter isPoolConnect
         (added fresh
            (snd (snd (query_handler select_two (Fulfilled ()) (Fulfilled no_rows) None fresh)))) = []"
  using query_unavailable_503 [of fresh select_two "Fulfilled ()" "Fulfilled no_rows" None]
  by (simp add: fresh_def added_def)

text \<open>
  Claim C5. When \<open>client.query\<close> rejects with error \<open>e\<close>, the answer is 500 with the
  message of \<open>e\<close>. If the code of \<open>e\<close> is ECONNRESET or 57P01, the flag is cleared and
  \<open>connectDB\<close> is called (with the configuration present, the call is left waiting for
  the old pool to end). For every other error no call is made and the flag, the pool
  and the retry counter are as before.
\<close>

theorem query_failure_classified:
  assumes "isConnected s" and "pool s = Some h" and "\<not> falsy (req_text req)"
    and "acq = Fulfilled u" and "qr = Rejected e"
  shows "fst (query_handler req acq qr send s) = \<lparr>status = 500, body = ErrorBody (err_message e)\<rparr>
    \<and> (err_code e = Some ''ECONNRESET'' \<or> err_code e = Some ''57P01''
        \<longrightarrow> \<not> isConnected (snd (snd (query_handler req acq qr send s)))
          \<and> fst (snd (query_handler req acq qr send s)) \<noteq> None
          \<and> (missingEnvVars s = []
              \<longrightarrow> fst (snd (query_handler req acq qr send s)) = Some AwaitPoolEnd
                \<and> PoolEnd h \<in> set (added s (snd (snd (query_handler req acq qr send s))))))
    \<and> (err_code e \<noteq> Some ''ECONNRESET'' \<and> err_code e \<noteq> Some ''57P01''
        \<longrightarrow> fst (snd (query_handler req acq qr send s)) = None
          \<and> isConnected (snd (snd (query_handler req acq qr send s))) = isConnected s
          \<and> pool (snd (snd (query_handler req acq qr send s))) = pool s
          \<and> connectionRetries (snd (snd (query_handler req acq qr send s))) = connectionRetries s)"
  using assms
  by (auto simp: query_handler_def query_catch_def connectDB_call_def added_def emit_def
      split: prod.splits)

theorem query_failure_classified_witness:
  "fst (query_handler select_two (Fulfilled ()) (Rejected reset) None connected) =
      \<lparr>status = 500, body = ErrorBody ''read ECONNRESET''\<rparr>
   \<and> \<not> isConnected
        (snd (snd (query_handler select_two (Fulfilled ()) (Rejected reset) None connected)))
   \<and> fst (snd (query_handler select_two (Fulfilled ()) (Rejected reset) None connected)) =
        Some AwaitPoolEnd
   \<and> fst (query_handler select_two (Fulfilled ()) (Rejected syntax_error) None connected) =
        \<lparr>status = 500, body = ErrorBody ''syntax error''\<rparr>
   \<and> fst (snd (query_handler select_two (Fulfilled ()) (Rejected syntax_error) None connected)) = None
   \<and> isConnected
        (snd (snd (query_handler select_two (Fulfilled ()) (Rejected syntax_error) None connected)))
   \<and> pool (snd (snd (query_handler select_two (Fulfilled ()) (Rejected syntax_error) None connected)))
        = Some 0"
  using
    query_failure_classified
      [of connected 0 select_two "Fulfilled ()" "()" "Rejected reset" reset None]
    query_failure_classified
      [of connected 0 select_two "Fulfilled ()" "()" "Rejected syntax_error" syntax_error None]
  by (simp add: connected_def select_two_def reset_def syntax_error_def)

text \<open>The same catch block answers a rejected \<open>pool.connect()\<close>; no client was acquired.\<close>

lemma query_acquire_failure:
  assumes "isConnected s" and "pool s = Some h" and "\<not> falsy (req_text req)"
    and "acq = Rejected e"
  shows "fst (query_handler req acq qr send s) = \<lparr>status = 500, body = ErrorBody (err_message e)\<rparr>
    \<and> filter isClientRelease (added s (snd (snd (query_handler req acq qr send s)))) = []"
  using assms
  by (auto simp: query_handler_def query_catch_def connectDB_call_def added_def emit_def
      split: prod.splits)

text \<open>
  Claim C7. A request that passes the connected check, carries a query text and acquires
  a client issues one \<open>pool.connect()\<close> and releases the client exactly once, as the last
  thing it does, whatever \<open>client.query\<close> answers and whether or not sending the rows
  throws.
\<close>

theorem query_client_released:
  assumes "isConnected s" and "pool s = Some h" and "\<not> falsy (req_text req)"
    and "acq = Fulfilled u"
  shows "last (trace (snd (snd (query_handler req acq qr send s)))) = ClientRelease h
    \<and> filter isClientRelease (added s (snd (snd (query_handler req acq qr send s)))) =
        [ClientRelease h]
    \<and> filter isPoolConnect (added s (snd (snd (query_handler req acq qr send s)))) =
        [PoolConnect h]"
  using assms
  by (auto simp: query_handler_def query_catch_def connectDB_call_def added_def emit_def
      split: prod.splits awaited.splits option.splits)

theorem query_client_released_witness:
  "last (trace (snd (snd (query_handler select_two (Fulfilled ()) (Rejected reset) None connected))))
      = ClientRelease 0
   \<and> last (trace
        (snd (snd (query_handler select_two (Fulfilled ()) (Fulfilled no_rows) None connected))))
      = ClientRelease 0"
  using query_client_released [of connected 0 select_two "Fulfilled ()" "()" "Rejected reset" None]
    query_client_released [of connected 0 select_two "Fulfilled ()" "()" "Fulfilled no_rows" None]
  by (simp add: connected_def select_two_def)

text \<open>
  Claim C10. A request without a query text (any value that \<open>!text\<close> accepts) is
  answered 503 when the flag is clear or there is no pool, and 400 when the flag is set
  and there is a pool. A 400 is given only then, and leaves the state and the trace as
  they were: no connection was asked for.
\<close>

theorem query_missing_text_order:
  "(falsy (req_text req) \<and> (\<not> isConnected s \<or> pool s = None)
      \<longrightarrow> status (fst (query_handler req acq qr send s)) = 503)
   \<and> (falsy (req_text req) \<and> isConnected s \<and> pool s \<noteq> None
      \<longrightarrow> status (fst (query_handler req acq qr send s)) = 400)
   \<and> (status (fst (query_handler req acq qr send s)) = 400
      \<longrightarrow> falsy (req_text req) \<and> isConnected s \<and> pool s \<noteq> None
        \<and> fst (snd (query_handler req acq qr send s)) = None
        \<and> snd (snd (query_handler req acq qr send s)) = s)"
  by (auto simp: query_handler_def query_catch_def
      split: option.splits awaited.splits prod.splits)

theorem query_missing_text_order_witness:
  "status (fst (query_handler no_text (Fulfilled ()) (Fulfilled no_rows) None fresh)) = 503
   \<and> status (fst (query_handler no_text (Fulfilled ()) (Fulfilled no_rows) None connected)) = 400
   \<and> snd (snd (query_handler no_text (Fulfilled ()) (Fulfilled no_rows) None connected)) = connected"
  using query_missing_text_order [of no_text fresh "Fulfilled ()" "Fulfilled no_rows" None]
    query_missing_text_order [of no_text connected "Fulfilled ()" "Fulfilled no_rows" None]
  by (simp add: no_text_def fresh_def connected_def)

section \<open>GET /api/health\<close>

text \<open>
  Claim C6. Whatever the state, the answer of the probe and the exceptions thrown while
  the payload is built or sent, the health request is answered 200, with a health payload
  or the degraded payload.
\<close>

theorem health_always_200:
  "status (fst (health_handler fault pr send s)) = 200
   \<and> isStatusPayload (body (fst (health_handler fault pr send s)))"
  by (simp add: health_handler_def health_probe_def health_probe_failed_def Let_def
      split: option.splits probe.splits prod.splits)

theorem health_always_200_witness:
  "status (fst (health_handler None (QueryRejected refused) None connected)) = 200
   \<and> isStatusPayload (body (fst (health_handler None (QueryRejected refused) None connected)))
   \<and> status (fst (health_handler (Some refused) ProbeOk None fresh)) = 200"
  using health_always_200 [of None "QueryRejected refused" None connected]
    health_always_200 [of "Some refused" ProbeOk None fresh]
  by simp

section \<open>Termination of connectDB\<close>

text \<open>Every resumption of a call that has not returned lowers its budget.\<close>

lemma budget_resume:
  "(\<forall>b. p \<noteq> Returned b) \<Longrightarrow> budget (resume ok p s) < budget (p, s)"
  by (cases p)
     (auto simp: connect_create_def createPool_def connectDB_call_def connect_catch_def
        connect_success_def emit_def MAX_RETRIES_def Let_def split: option.splits)

lemma run_fuel_enough:
  "budget t \<le> n \<Longrightarrow> run_fuel n w t = Some (run_task w t)"
proof (induction n arbitrary: t)
  case 0
  then show ?case
    by (cases t rule: budget.cases) simp_all
next
  case (Suc n)
  obtain p s where t: "t = (p, s)" by (cases t)
  show ?case
  proof (cases "\<exists>b. p = Returned b")
    case True
    then show ?thesis using t by auto
  next
    case False
    then have "budget (resume ok p s) \<le> n" for ok
      using budget_resume [of p ok s] Suc.prems t by simp
    then have "run_fuel n w (resume ok p s) = Some (run_task w (resume ok p s))" for ok
      using Suc.IH by simp
    then show ?thesis
      using t False by (cases p) simp_all
  qed
qed

lemma budget_call: "budget (connectDB_call s) \<le> 5 * MAX_RETRIES + 4"
  by (auto simp: connectDB_call_def connect_create_def createPool_def emit_def MAX_RETRIES_def
      split: option.splits)

lemma answered_acquired: "answered p \<Longrightarrow> acquired p"
  by (cases p) simp_all

lemma successful_attempt:
  assumes "missingEnvVars s = []" and "answered (w (attempts s))"
  shows "fst (run_task w (connect_create s)) = True
    \<and> trace (snd (run_task w (connect_create s))) =
        trace s @ [PoolCreated (attempts s), PoolConnect (attempts s), ClientQuery (attempts s),
                   ClientRelease (attempts s), SetInterval KEEPALIVE_INTERVAL]
    \<and> isConnected (snd (run_task w (connect_create s)))
    \<and> pool (snd (run_task w (connect_create s))) = Some (attempts s)
    \<and> connectionRetries (snd (run_task w (connect_create s))) = 0"
  using assms answered_acquired [OF assms(2)]
  by (simp add: connect_create_def createPool_def connect_success_def state_simps)

lemma failed_attempt_trace:
  assumes "missingEnvVars s = []" and "\<not> answered (w (attempts s))"
  shows "\<exists>s1 evs. run_task w (connect_create s) = run_task w (connect_catch s1)
           \<and> trace s1 = trace s @ PoolCreated (attempts s) # evs
           \<and> filter isAttemptOrDelay evs = []
           \<and> attempts s1 = Suc (attempts s)
           \<and> connectionRetries s1 = connectionRetries s \<and> missingEnvVars s1 = []"
proof (cases "acquired (w (attempts s))")
  case True
  with assms show ?thesis
    by (intro exI [of _ "emit (ClientQuery (attempts s))
          (emit (PoolConnect (attempts s))
             ((emit (PoolCreated (attempts s)) s)\<lparr>pool := Some (attempts s)\<rparr>))"]
          exI [of _ "[PoolConnect (attempts s), ClientQuery (attempts s)]"])
       (simp add: connect_create_def createPool_def state_simps)
next
  case False
  with assms show ?thesis
    by (intro exI [of _ "emit (PoolConnect (attempts s))
          ((emit (PoolCreated (attempts s)) s)\<lparr>pool := Some (attempts s)\<rparr>)"]
          exI [of _ "[PoolConnect (attempts s)]"])
       (simp add: connect_create_def createPool_def state_simps)
qed

lemma create_shape:
  "missingEnvVars s = [] \<Longrightarrow> MAX_RETRIES - connectionRetries s = k \<Longrightarrow>
   \<exists>n evs. trace (snd (run_task w (connect_create s))) = trace s @ evs
     \<and> filter isAttemptOrDelay evs = PoolCreated (attempts s) # retries_from (Suc (attempts s)) n
     \<and> attempts (snd (run_task w (connect_create s))) = attempts s + Suc n
     \<and> n \<le> k
     \<and> (\<not> fst (run_task w (connect_create s)) \<longrightarrow>
          connectionRetries (snd (run_task w (connect_create s))) = connectionRetries s + n
          \<and> MAX_RETRIES \<le> connectionRetries (snd (run_task w (connect_create s))))"
proof (induction k arbitrary: s)
  case 0
  show ?case
  proof (cases "answered (w (attempts s))")
    case True
    then show ?thesis
      using successful_attempt [of s w] 0
      by (intro exI [of _ 0]) (simp add: attempts_def)
  next
    case False
    then obtain s1 evs where s1: "run_task w (connect_create s) = run_task w (connect_catch s1)"
        "trace s1 = trace s @ PoolCreated (attempts s) # evs" "filter isAttemptOrDelay evs = []"
        "attempts s1 = Suc (attempts s)"
        "connectionRetries s1 = connectionRetries s" "missingEnvVars s1 = []"
      using failed_attempt_trace [of s w] 0 by blast
    then show ?thesis
      using 0 by (intro exI [of _ 0]) (simp add: connect_catch_def state_simps attempts_def)
  qed
next
  case (Suc k)
  show ?case
  proof (cases "answered (w (attempts s))")
    case True
    then show ?thesis
      using successful_attempt [of s w] Suc.prems
      by (intro exI [of _ 0]) (simp add: attempts_def)
  next
    case False
    then obtain s1 evs where s1: "run_task w (connect_create s) = run_task w (connect_catch s1)"
        "trace s1 = trace s @ PoolCreated (attempts s) # evs" "filter isAttemptOrDelay evs = []"
        "attempts s1 = Suc (attempts s)"
        "connectionRetries s1 = connectionRetries s" "missingEnvVars s1 = []"
      using failed_attempt_trace [of s w] Suc.prems by blast
    let ?s2 = "emit (Sleep RETRY_DELAY)
      (s1\<lparr>isConnected := False, pool := None, connectionRetries := connectionRetries s1 + 1\<rparr>)"
    have lt: "connectionRetries s1 < MAX_RETRIES"
      using s1 Suc.prems by simp
    then have run: "run_task w (connect_create s) = run_task w (connect_create ?s2)"
      using s1 by (simp add: connect_catch_def connectDB_call_def state_simps)
    have "missingEnvVars ?s2 = []" "MAX_RETRIES - connectionRetries ?s2 = k"
      using s1 Suc.prems by (simp_all add: state_simps)
    from Suc.IH [OF this] obtain n evs2 where
      ih: "trace (snd (run_task w (connect_create ?s2))) = trace ?s2 @ evs2"
        "filter isAttemptOrDelay evs2 =
           PoolCreated (attempts ?s2) # retries_from (Suc (attempts ?s2)) n"
        "attempts (snd (run_task w (connect_create ?s2))) = attempts ?s2 + Suc n"
        "n \<le> k"
        "\<not> fst (run_task w (connect_create ?s2)) \<longrightarrow>
          connectionRetries (snd (run_task w (connect_create ?s2))) = connectionRetries ?s2 + n
          \<and> MAX_RETRIES \<le> connectionRetries (snd (run_task w (connect_create ?s2)))"
      by blast
    have a2: "attempts ?s2 = Suc (attempts s)" "connectionRetries ?s2 = Suc (connectionRetries s)"
      "trace ?s2 = trace s @ PoolCreated (attempts s) # evs @ [Sleep RETRY_DELAY]"
      using s1 by (simp_all add: state_simps)
    show ?thesis
      using ih s1(3) unfolding run a2
      by (intro exI [of _ "Suc n"] exI [of _ "PoolCreated (attempts s) # evs @ Sleep RETRY_DELAY # evs2"])
         auto
  qed
qed


lemma connectDB_shape:
  "\<exists>n evs. trace (snd (connectDB w s)) = trace s @ evs
     \<and> filter isAttemptOrDelay evs = attempts_from (attempts s) n
     \<and> attempts (snd (connectDB w s)) = attempts s + n
     \<and> n \<le> MAX_RETRIES - connectionRetries s + 1
     \<and> (\<not> fst (connectDB w s) \<and> 0 < n \<longrightarrow>
          connectionRetries (snd (connectDB w s)) = connectionRetries s + (n - 1)
          \<and> MAX_RETRIES \<le> connectionRetries (snd (connectDB w s)))"
proof (cases "isConnected s \<or> missingEnvVars s \<noteq> []")
  case True
  then show ?thesis
    by (intro exI [of _ 0] exI [of _ "[]"]) (auto simp: connectDB_def connectDB_call_def)
next
  case False
  show ?thesis
  proof (cases "pool s")
    case None
    then have run: "connectDB w s = run_task w (connect_create s)"
      using False by (simp add: connectDB_def connectDB_call_def)
    from create_shape [of s _ w] False obtain n evs where
      "trace (snd (run_task w (connect_create s))) = trace s @ evs"
      "filter isAttemptOrDelay evs = PoolCreated (attempts s) # retries_from (Suc (attempts s)) n"
      "attempts (snd (run_task w (connect_create s))) = attempts s + Suc n"
      "n \<le> MAX_RETRIES - connectionRetries s"
      "\<not> fst (run_task w (connect_create s)) \<longrightarrow>
          connectionRetries (snd (run_task w (connect_create s))) = connectionRetries s + n
          \<and> MAX_RETRIES \<le> connectionRetries (snd (run_task w (connect_create s)))"
      by blast
    then show ?thesis
      unfolding run by (intro exI [of _ "Suc n"] exI [of _ evs]) auto
  next
    case (Some p)
    let ?s1 = "emit (PoolEnd p) s"
    have run: "connectDB w s = run_task w (connect_create ?s1)"
      using False Some by (simp add: connectDB_def connectDB_call_def)
    have "missingEnvVars ?s1 = []"
      using False by (simp add: state_simps)
    from create_shape [OF this, of _ w] obtain n evs where
      "trace (snd (run_task w (connect_create ?s1))) = trace ?s1 @ evs"
      "filter isAttemptOrDelay evs = PoolCreated (attempts ?s1) # retries_from (Suc (attempts ?s1)) n"
      "attempts (snd (run_task w (connect_create ?s1))) = attempts ?s1 + Suc n"
      "n \<le> MAX_RETRIES - connectionRetries ?s1"
      "\<not> fst (run_task w (connect_create ?s1)) \<longrightarrow>
          connectionRetries (snd (run_task w (connect_create ?s1))) = connectionRetries ?s1 + n
          \<and> MAX_RETRIES \<le> connectionRetries (snd (run_task w (connect_create ?s1)))"
      by blast
    then show ?thesis
      unfolding run
      by (intro exI [of _ "Suc n"] exI [of _ "PoolEnd p # evs"]) (auto simp: state_simps)
  qed
qed

text \<open>
  One call run alone. For every state and every database, a call of \<open>connectDB\<close> with
  no other call in flight returns within \<open>5 * MAX_RETRIES + 4\<close> resumptions. It makes at
  most one attempt more than the counter leaves retries; its attempts and delays
  alternate, each delay being \<open>RETRY_DELAY\<close> (5000 ms); and when it gives up after an
  attempt, the counter was raised by one for each retry and has reached \<open>MAX_RETRIES\<close>.
  The retry is written as a call of \<open>connectDB\<close> by itself (line 108); the bound is on
  the depth of that recursion.
\<close>

lemma connectDB_alone_terminates:
  "run_fuel (5 * MAX_RETRIES + 4) w (connectDB_call s) = Some (connectDB w s)
   \<and> attempts s \<le> attempts (snd (connectDB w s))
   \<and> attempts (snd (connectDB w s)) - attempts s \<le> MAX_RETRIES - connectionRetries s + 1
   \<and> filter isAttemptOrDelay (added s (snd (connectDB w s))) =
       attempts_from (attempts s) (attempts (snd (connectDB w s)) - attempts s)
   \<and> (\<not> fst (connectDB w s) \<and> attempts s < attempts (snd (connectDB w s)) \<longrightarrow>
        connectionRetries (snd (connectDB w s)) =
          connectionRetries s + (attempts (snd (connectDB w s)) - attempts s - 1)
        \<and> MAX_RETRIES \<le> connectionRetries (snd (connectDB w s)))"
proof -
  have "run_fuel (5 * MAX_RETRIES + 4) w (connectDB_call s) = Some (connectDB w s)"
    using run_fuel_enough [OF budget_call] by (simp add: connectDB_def)
  moreover obtain n evs where "trace (snd (connectDB w s)) = trace s @ evs"
     "filter isAttemptOrDelay evs = attempts_from (attempts s) n"
     "attempts (snd (connectDB w s)) = attempts s + n"
     "n \<le> MAX_RETRIES - connectionRetries s + 1"
     "\<not> fst (connectDB w s) \<and> 0 < n \<longrightarrow>
          connectionRetries (snd (connectDB w s)) = connectionRetries s + (n - 1)
          \<and> MAX_RETRIES \<le> connectionRetries (snd (connectDB w s))"
    using connectDB_shape [of w s] by blast
  ultimately show ?thesis
    by (auto simp: added_def)
qed

lemma connectDB_alone_terminates_example:
  "run_fuel 29 always_refused (connectDB_call fresh) = Some (connectDB always_refused fresh)
   \<and> filter isAttemptOrDelay (added fresh (snd (connectDB always_refused fresh))) =
       [PoolCreated 0, Sleep 5000, PoolCreated 1, Sleep 5000, PoolCreated 2, Sleep 5000,
        PoolCreated 3, Sleep 5000, PoolCreated 4, Sleep 5000, PoolCreated 5]
   \<and> connectionRetries (snd (connectDB always_refused fresh)) = 5"
proof -
  have six: "attempts (snd (connectDB always_refused fresh)) = 6"
    and no: "\<not> fst (connectDB always_refused fresh)"
    using create_all_fail [of always_refused fresh]
    by (simp_all add: connectDB_def connectDB_call_def always_refused_def fresh_def
        MAX_RETRIES_def attempts_def split: prod.splits)
  have zero: "attempts fresh = 0" "connectionRetries fresh = 0"
    by (simp_all add: fresh_def attempts_def)
  show ?thesis
    using connectDB_alone_terminates [of always_refused fresh] six no zero
    by (simp add: MAX_RETRIES_def RETRY_DELAY_def eval_nat_numeral)
qed


section \<open>A failed keepalive probe\<close>

text \<open>
  Claim C3, as the code has it. A failed keepalive probe on the connected process clears
  the flag and makes one call of \<open>connectDB\<close>, left waiting for the old pool to end; no
  pool has been created yet. Run alone (no other call of \<open>connectDB\<close> in flight until
  it returns), that call is the retry sequence of the first connect: it makes one attempt
  when that attempt succeeds, and when the database answers no probe it makes
  \<open>MAX_RETRIES + 1 - r\<close> attempts from a counter of \<open>r\<close> (six from the counter of 0
  that a successful connect leaves) and ends with the flag clear and no pool. Nothing is
  said here of a call that overlaps another; they share the counter.
\<close>

theorem keepalive_failure_reconnect:
  assumes "pr \<noteq> ProbeOk" and "isConnected s" and "pool s = Some p"
    and "missingEnvVars s = []" and "connectionRetries s \<le> MAX_RETRIES"
  shows "fst (keepalive_tick pr s) = Some AwaitPoolEnd
    \<and> \<not> isConnected (snd (keepalive_tick pr s))
    \<and> attempts (snd (keepalive_tick pr s)) = attempts s
    \<and> (w (attempts s) = ProbeOk \<longrightarrow>
          fst (run_task w (AwaitPoolEnd, snd (keepalive_tick pr s)))
          \<and> attempts (snd (run_task w (AwaitPoolEnd, snd (keepalive_tick pr s)))) = attempts s + 1
          \<and> isConnected (snd (run_task w (AwaitPoolEnd, snd (keepalive_tick pr s)))))
    \<and> ((\<forall>h. w h \<noteq> ProbeOk) \<longrightarrow>
          \<not> fst (run_task w (AwaitPoolEnd, snd (keepalive_tick pr s)))
          \<and> attempts (snd (run_task w (AwaitPoolEnd, snd (keepalive_tick pr s)))) =
              attempts s + (MAX_RETRIES + 1 - connectionRetries s)
          \<and> \<not> isConnected (snd (run_task w (AwaitPoolEnd, snd (keepalive_tick pr s))))
          \<and> pool (snd (run_task w (AwaitPoolEnd, snd (keepalive_tick pr s)))) = None)"
proof -
  obtain s1 where tick: "keepalive_tick pr s = (Some AwaitPoolEnd, s1)"
    and s1: "\<not> isConnected s1" "attempts s1 = attempts s" "missingEnvVars s1 = []"
      "connectionRetries s1 = connectionRetries s"
    using assms
    by (cases pr)
       (simp_all add: keepalive_tick_def keepalive_catch_def connectDB_call_def state_simps)
  have run: "run_task w (AwaitPoolEnd, s1) = run_task w (connect_create s1)"
    by simp
  have ok: "w (attempts s) = ProbeOk \<longrightarrow>
      fst (run_task w (connect_create s1))
      \<and> attempts (snd (run_task w (connect_create s1))) = attempts s + 1
      \<and> isConnected (snd (run_task w (connect_create s1)))"
    using successful_attempt [of s1 w] s1 by (simp add: attempts_def)
  have bad: "(\<forall>h. w h \<noteq> ProbeOk) \<longrightarrow>
      \<not> fst (run_task w (connect_create s1))
      \<and> attempts (snd (run_task w (connect_create s1))) =
          attempts s + (MAX_RETRIES + 1 - connectionRetries s)
      \<and> \<not> isConnected (snd (run_task w (connect_create s1)))
      \<and> pool (snd (run_task w (connect_create s1))) = None"
    using create_all_fail [of w s1] s1 assms(5)
    by (auto simp: answered_iff split: prod.splits)
  show ?thesis
    unfolding tick run using s1 ok bad by simp
qed

text \<open>
  The theorem at the connected process, for a database that refuses every connection and
  for one that answers.
\<close>

theorem keepalive_failure_reconnect_witness:
  "fst (keepalive_tick (AcquireRejected refused) connected) = Some AwaitPoolEnd
   \<and> \<not> isConnected (snd (keepalive_tick (AcquireRejected refused) connected))
   \<and> attempts (snd (run_task always_refused
        (AwaitPoolEnd, snd (keepalive_tick (AcquireRejected refused) connected)))) = 7
   \<and> pool (snd (run_task always_refused
        (AwaitPoolEnd, snd (keepalive_tick (AcquireRejected refused) connected)))) = None
   \<and> attempts (snd (run_task always_ok
        (AwaitPoolEnd, snd (keepalive_tick (AcquireRejected refused) connected)))) = 2
   \<and> isConnected (snd (run_task always_ok
        (AwaitPoolEnd, snd (keepalive_tick (AcquireRejected refused) connected))))"
  using keepalive_failure_reconnect [of "AcquireRejected refused" connected 0 always_refused]
    keepalive_failure_reconnect [of "AcquireRejected refused" connected 0 always_ok]
  by (simp add: connected_def always_refused_def always_ok_def MAX_RETRIES_def attempts_def)

text \<open>
  Claim C3 as it is written (a single reconnect attempt) fails there: one pool exists
  when the probe fails, and the reconnect does not stop at a second one.
\<close>

theorem single_reconnect_counterexample:
  "attempts (snd (keepalive_tick (AcquireRejected refused) connected)) = 1
   \<and> attempts (snd (run_task always_refused
        (AwaitPoolEnd, snd (keepalive_tick (AcquireRejected refused) connected)))) \<noteq> 2"
  by (simp add: keepalive_tick_def keepalive_catch_def connectDB_call_def connect_create_def
      createPool_def connect_catch_def always_refused_def connected_def MAX_RETRIES_def
      attempts_def emit_def)

section \<open>One call at a time\<close>

text \<open>
  When no other call of \<open>connectDB\<close> runs between its \<open>await\<close>s, a call keeps what it
  relies on from one resumption to the next, and ends with the flag set only if there is
  a pool. So does every handler and every tick, followed by the call it made.
\<close>

lemma call_ok: "flag_has_pool s \<Longrightarrow> task_ok (connectDB_call s)"
  by (auto simp: connectDB_call_def connect_create_def createPool_def flag_has_pool_def
      emit_def split: option.splits)

lemma call_cleared_ok:
  "connectDB_call (s\<lparr>isConnected := False\<rparr>) = (t, s') \<Longrightarrow> task_ok (t, s')"
  using call_ok [of "s\<lparr>isConnected := False\<rparr>"] by (simp add: flag_has_pool_def)

lemma resume_ok: "task_ok (p, s) \<Longrightarrow> task_ok (resume ok p s)"
  by (cases p)
     (auto simp: connectDB_call_def connect_create_def createPool_def connect_catch_def
        connect_success_def flag_has_pool_def emit_def Let_def split: option.splits)

lemma run_task_ok: "task_ok t \<Longrightarrow> flag_has_pool (snd (run_task w t))"
proof (induction w t rule: run_task.induct)
  case (1 w b s)
  then show ?case by simp
next
  case (2 w s)
  then show ?case using resume_ok [of AwaitPoolEnd s True] by simp
next
  case (3 w h s)
  then show ?case using resume_ok [of "AwaitConnect h" s "acquired (w h)"] by simp
next
  case (4 w h s)
  then show ?case using resume_ok [of "AwaitQuery h" s "answered (w h)"] by simp
next
  case (5 w s)
  then show ?case using resume_ok [of AwaitDelay s True] by simp
qed

lemma settle_ok: "spawn_ok c \<Longrightarrow> flag_has_pool (settle w c)"
  by (cases c rule: spawn_ok.cases) (simp_all add: run_task_ok)

lemma flag_has_pool_emit: "flag_has_pool (emit e s) = flag_has_pool s"
  by (simp add: flag_has_pool_def emit_def)

lemma task_ok_emit: "task_ok (t, emit e s) = task_ok (t, s)"
  by (cases t) (simp_all add: flag_has_pool_emit, simp_all add: emit_def)

lemma keepalive_spawn_ok: "flag_has_pool s \<Longrightarrow> spawn_ok (keepalive_tick pr s)"
  by (auto simp: keepalive_tick_def keepalive_catch_def flag_has_pool_emit
      intro: call_cleared_ok split: option.splits probe.splits prod.splits)

lemma health_spawn_ok: "flag_has_pool s \<Longrightarrow> spawn_ok (snd (health_handler fault pr send s))"
  by (auto simp: health_handler_def health_probe_def health_probe_failed_def Let_def
        flag_has_pool_emit
      intro: call_cleared_ok split: option.splits probe.splits prod.splits)

lemma query_spawn_ok:
  "flag_has_pool s \<Longrightarrow> spawn_ok (snd (query_handler req acq qr send s))"
  by (auto simp: query_handler_def query_catch_def flag_has_pool_emit task_ok_emit
      intro: call_cleared_ok split: option.splits awaited.splits prod.splits)

lemma operations_keep_flag_has_pool:
  assumes "flag_has_pool s"
  shows "flag_has_pool (snd (connectDB w s))
    \<and> flag_has_pool (settle w (keepalive_tick pr s))
    \<and> flag_has_pool (settle w (snd (health_handler fault pr send s)))
    \<and> flag_has_pool (settle w (snd (query_handler req acq qr send s)))"
  using assms
  by (simp add: connectDB_def run_task_ok call_ok settle_ok keepalive_spawn_ok
      health_spawn_ok query_spawn_ok)

text \<open>
  The flag is set in one place only, after the probe of the call's own pool, and
  \<open>pool\<close> is cleared in one place only, the catch block, which clears the flag too.
\<close>

lemma flag_set_only_by_success:
  assumes "\<not> isConnected s" and "isConnected (snd (resume ok p s))"
  shows "\<exists>h. p = AwaitQuery h \<and> ok"
  using assms
  by (cases p)
     (auto simp: connectDB_call_def connect_create_def createPool_def connect_catch_def
        emit_def Let_def split: option.splits if_splits)

lemma catch_clears_flag:
  "\<not> isConnected (snd (connect_catch s)) \<and> pool (snd (connect_catch s)) = None"
  by (simp add: connect_catch_def emit_def Let_def)

section \<open>Two calls of connectDB in flight\<close>

lemma two_triggers_eq:
  "two_triggers =
     ([AwaitPoolEnd, AwaitPoolEnd],
      \<lparr>pool = Some 0, isConnected = False, connectionRetries = 0, missingEnvVars = [],
       trace = [PoolCreated 0, PoolConnect 0, ClientQuery 0, ClientRelease 0,
                SetInterval 30000, PoolConnect 0, ClientQuery 0, PoolEnd 0, ClientRelease 0,
                PoolConnect 0, PoolEnd 0]\<rparr>)"
  by (simp add: two_triggers_def query_handler_def query_catch_def keepalive_tick_def
      keepalive_catch_def connectDB_call_def connected_def select_two_def reset_def emit_def)

lemma both_succeed_eq:
  "interleave both_succeed two_triggers =
     ([Returned True, Returned True],
      \<lparr>pool = Some 2, isConnected = True, connectionRetries = 0, missingEnvVars = [],
       trace = [PoolCreated 0, PoolConnect 0, ClientQuery 0, ClientRelease 0,
                SetInterval 30000, PoolConnect 0, ClientQuery 0, PoolEnd 0, ClientRelease 0,
                PoolConnect 0, PoolEnd 0, PoolCreated 1, PoolConnect 1, PoolCreated 2,
                PoolConnect 2, ClientQuery 1, ClientQuery 2, ClientRelease 1,
                SetInterval 30000, ClientRelease 2, SetInterval 30000]\<rparr>)"
  by (simp add: two_triggers_eq both_succeed_def connect_create_def createPool_def
      connect_success_def attempts_def emit_def KEEPALIVE_INTERVAL_def)

lemma second_fails_eq:
  "interleave second_fails two_triggers =
     ([Returned True, Returned True],
      \<lparr>pool = None, isConnected = True, connectionRetries = 0, missingEnvVars = [],
       trace = [PoolCreated 0, PoolConnect 0, ClientQuery 0, ClientRelease 0,
                SetInterval 30000, PoolConnect 0, ClientQuery 0, PoolEnd 0, ClientRelease 0,
                PoolConnect 0, PoolEnd 0, PoolCreated 1, PoolConnect 1, PoolCreated 2,
                PoolConnect 2, Sleep 5000, ClientQuery 1, ClientRelease 1,
                SetInterval 30000]\<rparr>)"
  by (simp add: two_triggers_eq second_fails_def connect_create_def createPool_def
      connect_success_def connect_catch_def connectDB_call_def attempts_def emit_def
      KEEPALIVE_INTERVAL_def RETRY_DELAY_def MAX_RETRIES_def)

text \<open>
  Claim C2 on the code. After the two triggers both calls are waiting for the old pool
  to end and the flag is clear. When every promise is then fulfilled, both calls return
  \<open>true\<close> and two pools have been created, 1 and 2; \<open>pool\<close> holds the second, and
  the first was never ended.
\<close>

theorem concurrent_triggers_two_pools:
  "isConnected connected \<and> pool connected = Some 0
   \<and> fst two_triggers = [AwaitPoolEnd, AwaitPoolEnd]
   \<and> isConnected (snd two_triggers) = False
   \<and> fst (interleave both_succeed two_triggers) = [Returned True, Returned True]
   \<and> filter isPoolCreated (added connected (snd (interleave both_succeed two_triggers))) =
        [PoolCreated 1, PoolCreated 2]
   \<and> pool (snd (interleave both_succeed two_triggers)) = Some 2
   \<and> PoolEnd 1 \<notin> set (trace (snd (interleave both_succeed two_triggers)))"
  unfolding both_succeed_eq
  unfolding two_triggers_eq
  by (simp add: connected_def added_def)

text \<open>
  Claim C9 on the code. From the same two calls, when the second call's connection is
  refused, its catch block clears \<open>pool\<close>; the first call's probe then succeeds and
  sets the flag (line 80) without looking at \<open>pool\<close>. Both calls have returned, the flag
  is set and there is no pool. In that state a query is answered 503 and a keepalive
  tick does nothing, so nothing reconnects.
\<close>

theorem flag_set_without_pool:
  "isConnected connected \<and> pool connected = Some 0
   \<and> fst two_triggers = [AwaitPoolEnd, AwaitPoolEnd]
   \<and> fst (interleave second_fails two_triggers) = [Returned True, Returned True]
   \<and> isConnected (snd (interleave second_fails two_triggers)) = True
   \<and> pool (snd (interleave second_fails two_triggers)) = None
   \<and> status (fst (query_handler select_two (Fulfilled ()) (Fulfilled no_rows) None
        (snd (interleave second_fails two_triggers)))) = 503
   \<and> keepalive_tick (AcquireRejected refused) (snd (interleave second_fails two_triggers)) =
        (None, snd (interleave second_fails two_triggers))"
  unfolding second_fails_eq
  unfolding two_triggers_eq
  by (simp add: connected_def query_handler_def keepalive_tick_def)

text \<open>Longer schedules are evaluated piece by piece.\<close>

lemmas step_defs =
  connect_create_def createPool_def connect_success_def connect_catch_def connectDB_call_def
  attempts_def emit_def KEEPALIVE_INTERVAL_def RETRY_DELAY_def MAX_RETRIES_def

lemma interleave_append: "interleave (xs @ ys) c = interleave ys (interleave xs c)"
  by (induction xs arbitrary: c) simp_all

lemma attempts_by_append:
  "attempts_by i (xs @ ys) c = attempts_by i xs c + attempts_by i ys (interleave xs c)"
  by (induction xs arbitrary: c) simp_all

lemma first_burst_eq:
  "interleave first_burst two_triggers =
     ([AwaitPoolEnd, AwaitConnect 6],
      \<lparr>pool = Some 6, isConnected = False, connectionRetries = 5, missingEnvVars = [],
       trace = [PoolCreated 0, PoolConnect 0, ClientQuery 0, ClientRelease 0,
                SetInterval 30000, PoolConnect 0, ClientQuery 0, PoolEnd 0, ClientRelease 0,
                PoolConnect 0, PoolEnd 0, PoolCreated 1, PoolConnect 1, Sleep 5000,
                PoolCreated 2, PoolConnect 2, Sleep 5000, PoolCreated 3, PoolConnect 3,
                Sleep 5000, PoolCreated 4, PoolConnect 4, Sleep 5000, PoolCreated 5,
                PoolConnect 5, Sleep 5000, PoolCreated 6, PoolConnect 6]\<rparr>)"
  by (simp add: two_triggers_eq first_burst_def step_defs)

lemma first_burst_attempts:
  "attempts_by 1 first_burst two_triggers = 6 \<and> attempts_by 0 first_burst two_triggers = 0"
  by (simp add: two_triggers_eq first_burst_def step_defs)

lemma other_succeeds_eq:
  "interleave other_succeeds (interleave first_burst two_triggers) =
     ([Returned True, AwaitConnect 6],
      \<lparr>pool = Some 7, isConnected = True, connectionRetries = 0, missingEnvVars = [],
       trace = [PoolCreated 0, PoolConnect 0, ClientQuery 0, ClientRelease 0,
                SetInterval 30000, PoolConnect 0, ClientQuery 0, PoolEnd 0, ClientRelease 0,
                PoolConnect 0, PoolEnd 0, PoolCreated 1, PoolConnect 1, Sleep 5000,
                PoolCreated 2, PoolConnect 2, Sleep 5000, PoolCreated 3, PoolConnect 3,
                Sleep 5000, PoolCreated 4, PoolConnect 4, Sleep 5000, PoolCreated 5,
                PoolConnect 5, Sleep 5000, PoolCreated 6, PoolConnect 6, PoolCreated 7,
                PoolConnect 7, ClientQuery 7, ClientRelease 7, SetInterval 30000]\<rparr>)"
  unfolding first_burst_eq
  by (simp add: other_succeeds_def step_defs)

lemma other_succeeds_attempts:
  "attempts_by 1 other_succeeds (interleave first_burst two_triggers) = 0
   \<and> attempts_by 0 other_succeeds (interleave first_burst two_triggers) = 1"
  unfolding first_burst_eq
  by (simp add: other_succeeds_def step_defs)

lemma second_burst_eq:
  "fst (interleave second_burst (interleave other_succeeds (interleave first_burst two_triggers)))
     = [Returned True, Returned False]
   \<and> attempts_by 1 second_burst
        (interleave other_succeeds (interleave first_burst two_triggers)) = 5
   \<and> attempts_by 0 second_burst
        (interleave other_succeeds (interleave first_burst two_triggers)) = 0"
  unfolding other_succeeds_eq
  by (simp add: second_burst_def step_defs)

text \<open>
  With both calls in flight and every connection refused, the retries allowed by the one
  counter are divided between the calls: the first makes four attempts and the second
  three, and both give up.
\<close>

lemma overlapping_calls_share_counter:
  "fst (interleave refused_in_turn two_triggers) = [Returned False, Returned False]
   \<and> attempts_by 0 refused_in_turn two_triggers = 4
   \<and> attempts_by 1 refused_in_turn two_triggers = 3
   \<and> connectionRetries (snd (interleave refused_in_turn two_triggers)) = 5"
  by (simp add: two_triggers_eq refused_in_turn_def step_defs)

text \<open>
  Claim C8 on the code. The counter is a variable of the module, reset by the success of
  any call (line 81). From the two calls of \<open>two_triggers\<close>, the second call makes six
  attempts, which raise the counter to 5, and waits for the connection of pool 6. The
  first call then creates pool 7, connects and resets the counter to 0. The connection
  of pool 6 is refused, and the second call, finding the counter at 0, makes five more
  attempts before it gives up: eleven attempts by one call, more than
  \<open>MAX_RETRIES + 1\<close>, with a counter that went back from 5 to 0 on the way.
\<close>

theorem shared_counter_reset:
  "fst two_triggers = [AwaitPoolEnd, AwaitPoolEnd]
   \<and> connectionRetries (snd two_triggers) = 0
   \<and> fst (interleave first_burst two_triggers) = [AwaitPoolEnd, AwaitConnect 6]
   \<and> connectionRetries (snd (interleave first_burst two_triggers)) = 5
   \<and> fst (interleave (first_burst @ other_succeeds) two_triggers) =
        [Returned True, AwaitConnect 6]
   \<and> connectionRetries (snd (interleave (first_burst @ other_succeeds) two_triggers)) = 0
   \<and> fst (interleave (first_burst @ other_succeeds @ second_burst) two_triggers) =
        [Returned True, Returned False]
   \<and> attempts_by 0 (first_burst @ other_succeeds @ second_burst) two_triggers = 1
   \<and> attempts_by 1 (first_burst @ other_succeeds @ second_burst) two_triggers = 11
   \<and> MAX_RETRIES + 1 < attempts_by 1 (first_burst @ other_succeeds @ second_burst) two_triggers"
proof -
  have start: "fst two_triggers = [AwaitPoolEnd, AwaitPoolEnd]"
    "connectionRetries (snd two_triggers) = 0"
    by (simp_all add: two_triggers_eq)
  have first: "fst (interleave first_burst two_triggers) = [AwaitPoolEnd, AwaitConnect 6]"
    "connectionRetries (snd (interleave first_burst two_triggers)) = 5"
    by (simp_all add: first_burst_eq)
  have other:
    "fst (interleave other_succeeds (interleave first_burst two_triggers)) =
       [Returned True, AwaitConnect 6]"
    "connectionRetries (snd (interleave other_succeeds (interleave first_burst two_triggers)))
       = 0"
    by (simp_all add: other_succeeds_eq)
  show ?thesis
    unfolding interleave_append attempts_by_append
    using start first other first_burst_attempts other_succeeds_attempts second_burst_eq
    by (simp add: MAX_RETRIES_def)
qed

end
